theory Spec2Isabelle
  imports Main "HOL-Library.Word"
begin

section \<open>The generated C headers for \<open>diplomat_result_double_void\<close>\<close>

text \<open>
  The repository holds two generated headers that declare the same tagged result type,
  \<^verbatim>\<open>feature_tests/cpp/include/diplomat_result_double_void.h\<close> and a second header
  whose include guard is \<^verbatim>\<open>diplomat_result_double_void_D_H\<close>. Both consist of an
  include guard, five includes, the \<^verbatim>\<open>capi\<close> namespace with C linkage under
  \<^verbatim>\<open>__cplusplus\<close>, and one \<^verbatim>\<open>typedef struct\<close>. A header is embedded as the data
  it declares: the C types that occur, the members of a struct or union in declaration
  order, and the header around them.
\<close>

datatype c_type =
    CDouble
  | CBool
  | CUnion "c_member list"
  | CStruct "c_member list"
and c_member = Member (member_name: "string option") (member_type: c_type)

record c_typedef_struct =
  struct_tag :: string
  struct_members :: "c_member list"
  typedef_name :: string

datatype c_include = SystemInclude string | LocalInclude string

record c_header =
  include_guard :: string
  header_includes :: "c_include list"
  cplusplus_namespace :: string
  extern_C :: bool
  declarations :: "c_typedef_struct list"

text \<open>
  \<^verbatim>\<open>
  typedef struct diplomat_result_double_void {
      union {
          double ok;
      };
      bool is_ok;
  } diplomat_result_double_void;
  \<close>
  as written in \<^verbatim>\<open>diplomat_result_double_void.h\<close>, lines 13 to 18.
\<close>

definition diplomat_result_double_void_h_struct :: c_typedef_struct where
  "diplomat_result_double_void_h_struct =
     \<lparr> struct_tag = ''diplomat_result_double_void'',
       struct_members =
         [ Member None (CUnion [Member (Some ''ok'') CDouble]),
           Member (Some ''is_ok'') CBool ],
       typedef_name = ''diplomat_result_double_void'' \<rparr>"

definition diplomat_result_double_void_h :: c_header where
  "diplomat_result_double_void_h =
     \<lparr> include_guard = ''diplomat_result_double_void_H'',
       header_includes = [SystemInclude ''stdio.h'', SystemInclude ''stdint.h'',
                          SystemInclude ''stddef.h'', SystemInclude ''stdbool.h'',
                          LocalInclude ''diplomat_runtime.h''],
       cplusplus_namespace = ''capi'',
       extern_C = True,
       declarations = [diplomat_result_double_void_h_struct] \<rparr>"

text \<open>
  The same declaration as written in the second header (guard
  \<^verbatim>\<open>diplomat_result_double_void_D_H\<close>), lines 16 to 21, embedded from that file's text:
  \<^verbatim>\<open>
  typedef struct diplomat_result_double_void {
    union {
      double ok;
    };
    bool is_ok;
  } diplomat_result_double_void;
  \<close>
\<close>

definition diplomat_result_double_void_d_h_struct :: c_typedef_struct where
  "diplomat_result_double_void_d_h_struct =
     \<lparr> struct_tag = ''diplomat_result_double_void'',
       struct_members =
         [ Member None (CUnion [Member (Some ''ok'') CDouble]),
           Member (Some ''is_ok'') CBool ],
       typedef_name = ''diplomat_result_double_void'' \<rparr>"

definition diplomat_result_double_void_d_h :: c_header where
  "diplomat_result_double_void_d_h =
     \<lparr> include_guard = ''diplomat_result_double_void_D_H'',
       header_includes = [SystemInclude ''stdio.h'', SystemInclude ''stdint.h'',
                          SystemInclude ''stddef.h'', SystemInclude ''stdbool.h'',
                          LocalInclude ''diplomat_runtime.h''],
       cplusplus_namespace = ''capi'',
       extern_C = True,
       declarations = [diplomat_result_double_void_d_h_struct] \<rparr>"

text \<open>Looking a typedef up by name in a header, as a translation unit that includes it does.\<close>

fun lookup_typedef :: "c_typedef_struct list \<Rightarrow> string \<Rightarrow> c_typedef_struct option" where
  "lookup_typedef [] n = None"
| "lookup_typedef (d # ds) n = (if typedef_name d = n then Some d else lookup_typedef ds n)"

definition declared_type :: "c_header \<Rightarrow> string \<Rightarrow> c_type option" where
  "declared_type h n = map_option (\<lambda>d. CStruct (struct_members d)) (lookup_typedef (declarations h) n)"

section \<open>The generated C\# binding \<open>Raw.Utf16Wrap\<close>\<close>

text \<open>
  \<^verbatim>\<open>feature_tests/dotnet/Lib/Generated/RawUtf16Wrap.cs\<close> declares a sequential-layout
  struct with no fields, the constant \<^verbatim>\<open>NativeLib\<close> and three \<^verbatim>\<open>static unsafe extern\<close>
  methods, each under a \<^verbatim>\<open>DllImport\<close> attribute. The attribute's arguments and the
  method's signature are embedded field by field.
\<close>

datatype cs_type =
    CsVoid
  | CsUShort
  | CsArray cs_type
  | CsPointer cs_type
  | CsNamed string

datatype calling_convention = Winapi | Cdecl | StdCall | ThisCall | FastCall

datatype layout_kind = Sequential | Explicit | Auto

record cs_parameter =
  parameter_type :: cs_type
  parameter_name :: string

record dll_import =
  dll_name :: string
  CallingConvention :: calling_convention
  EntryPoint :: string
  ExactSpelling :: bool
  method_name :: string
  return_type :: cs_type
  parameters :: "cs_parameter list"

record cs_struct =
  cs_namespace :: string
  StructLayout :: layout_kind
  cs_struct_name :: string
  extern_methods :: "dll_import list"

definition NativeLib :: string where
  "NativeLib = ''diplomat_feature_tests''"

text \<open>
  \<^verbatim>\<open>
  [DllImport(NativeLib, CallingConvention = CallingConvention.Cdecl,
             EntryPoint = "Utf16Wrap_borrow_cont", ExactSpelling = true)]
  public static unsafe extern ushort[] BorrowCont(Utf16Wrap* self);
  \<close>
\<close>

definition Raw_BorrowCont :: dll_import where
  "Raw_BorrowCont =
     \<lparr> dll_name = NativeLib, CallingConvention = Cdecl,
       EntryPoint = ''Utf16Wrap_borrow_cont'', ExactSpelling = True,
       method_name = ''BorrowCont'',
       return_type = CsArray CsUShort,
       parameters = [\<lparr> parameter_type = CsPointer (CsNamed ''Utf16Wrap''), parameter_name = ''self'' \<rparr>] \<rparr>"

text \<open>
  \<^verbatim>\<open>
  [DllImport(NativeLib, CallingConvention = CallingConvention.Cdecl,
             EntryPoint = "Utf16Wrap_owned", ExactSpelling = true)]
  public static unsafe extern ushort[] Owned(Utf16Wrap* self);
  \<close>
\<close>

definition Raw_Owned :: dll_import where
  "Raw_Owned =
     \<lparr> dll_name = NativeLib, CallingConvention = Cdecl,
       EntryPoint = ''Utf16Wrap_owned'', ExactSpelling = True,
       method_name = ''Owned'',
       return_type = CsArray CsUShort,
       parameters = [\<lparr> parameter_type = CsPointer (CsNamed ''Utf16Wrap''), parameter_name = ''self'' \<rparr>] \<rparr>"

text \<open>
  \<^verbatim>\<open>
  [DllImport(NativeLib, CallingConvention = CallingConvention.Cdecl,
             EntryPoint = "Utf16Wrap_destroy", ExactSpelling = true)]
  public static unsafe extern void Destroy(Utf16Wrap* self);
  \<close>
\<close>

definition Raw_Destroy :: dll_import where
  "Raw_Destroy =
     \<lparr> dll_name = NativeLib, CallingConvention = Cdecl,
       EntryPoint = ''Utf16Wrap_destroy'', ExactSpelling = True,
       method_name = ''Destroy'',
       return_type = CsVoid,
       parameters = [\<lparr> parameter_type = CsPointer (CsNamed ''Utf16Wrap''), parameter_name = ''self'' \<rparr>] \<rparr>"

definition Raw_Utf16Wrap :: cs_struct where
  "Raw_Utf16Wrap =
     \<lparr> cs_namespace = ''DiplomatFeatures.Raw'',
       StructLayout = Sequential,
       cs_struct_name = ''Utf16Wrap'',
       extern_methods = [Raw_BorrowCont, Raw_Owned, Raw_Destroy] \<rparr>"

text \<open>
  The signature of an extern method is its parameter types, in order, and its return
  type; parameter names and the attribute are not part of it.
\<close>

definition signature :: "dll_import \<Rightarrow> cs_type list \<times> cs_type" where
  "signature m = (map parameter_type (parameters m), return_type m)"

text \<open>
  The generator names a native symbol \<^verbatim>\<open><TypeName>_<operationName>\<close>, where the
  operation name is the method's name in snake case; the C\# method carries the same name
  in upper camel case. \<open>snake_case\<close> turns the C\# name back: every upper-case letter is
  lowered, and an underscore is put before it unless it starts the name.
\<close>

definition is_upper :: "char \<Rightarrow> bool" where
  "is_upper c \<longleftrightarrow> 65 \<le> (of_char c :: nat) \<and> (of_char c :: nat) \<le> 90"

definition to_lower :: "char \<Rightarrow> char" where
  "to_lower c = (if is_upper c then char_of ((of_char c :: nat) + 32) else c)"

fun snake_case_from :: "bool \<Rightarrow> string \<Rightarrow> string" where
  "snake_case_from first [] = []"
| "snake_case_from first (c # cs) =
     (if is_upper c then (if first then [] else ''_'') @ [to_lower c] else [c])
       @ snake_case_from False cs"

definition snake_case :: "string \<Rightarrow> string" where
  "snake_case s = snake_case_from True s"

definition native_symbol :: "string \<Rightarrow> string \<Rightarrow> string" where
  "native_symbol type_name operation_name = type_name @ ''_'' @ operation_name"

definition expected_entry_point :: "cs_struct \<Rightarrow> dll_import \<Rightarrow> string" where
  "expected_entry_point s m = native_symbol (cs_struct_name s) (snake_case (method_name m))"

text \<open>
  The three operations of the type, under the names the interface description gives them,
  and the extern method that binds each.
\<close>

datatype operation = BorrowContiguous | TakeOwned | Destroy

fun binding :: "operation \<Rightarrow> dll_import" where
  "binding BorrowContiguous = Raw_BorrowCont"
| "binding TakeOwned = Raw_Owned"
| "binding Destroy = Raw_Destroy"

section \<open>C object layout\<close>

text \<open>
  The headers fix the members and their order; the sizes and alignments of \<^verbatim>\<open>double\<close>
  and \<^verbatim>\<open>bool\<close> belong to the platform and are taken as a parameter. A layout is a pair
  of a size and an alignment. A union is as large as its largest member, padded to its
  alignment; a struct places its members in declaration order, each at the next offset
  that is a multiple of its alignment, and is padded at the end to its own alignment.
\<close>

record platform =
  sizeof_double :: nat
  alignof_double :: nat
  sizeof_bool :: nat
  alignof_bool :: nat

definition platform_ok :: "platform \<Rightarrow> bool" where
  "platform_ok P \<longleftrightarrow>
     0 < alignof_double P \<and> 0 < sizeof_double P \<and> sizeof_double P mod alignof_double P = 0 \<and>
     0 < alignof_bool P \<and> 0 < sizeof_bool P \<and> sizeof_bool P mod alignof_bool P = 0"

definition round_up :: "nat \<Rightarrow> nat \<Rightarrow> nat" where
  "round_up n a = ((n + a - 1) div a) * a"

definition max_list :: "nat list \<Rightarrow> nat \<Rightarrow> nat" where
  "max_list xs d = fold max xs d"

definition union_layout :: "(nat \<times> nat) list \<Rightarrow> nat \<times> nat" where
  "union_layout ls =
     (let a = max_list (map snd ls) 1 in (round_up (max_list (map fst ls) 0) a, a))"

fun member_offsets :: "nat \<Rightarrow> (nat \<times> nat) list \<Rightarrow> nat list" where
  "member_offsets cur [] = []"
| "member_offsets cur ((sz, al) # ls) = round_up cur al # member_offsets (round_up cur al + sz) ls"

fun members_end :: "nat \<Rightarrow> (nat \<times> nat) list \<Rightarrow> nat" where
  "members_end cur [] = cur"
| "members_end cur ((sz, al) # ls) = members_end (round_up cur al + sz) ls"

definition struct_layout :: "(nat \<times> nat) list \<Rightarrow> nat \<times> nat" where
  "struct_layout ls =
     (let a = max_list (map snd ls) 1 in (round_up (members_end 0 ls) a, a))"

primrec layout_of :: "platform \<Rightarrow> c_type \<Rightarrow> nat \<times> nat"
  and member_layout :: "platform \<Rightarrow> c_member \<Rightarrow> nat \<times> nat" where
  "layout_of P CDouble = (sizeof_double P, alignof_double P)"
| "layout_of P CBool = (sizeof_bool P, alignof_bool P)"
| "layout_of P (CUnion ms) = union_layout (map (member_layout P) ms)"
| "layout_of P (CStruct ms) = struct_layout (map (member_layout P) ms)"
| "member_layout P (Member n t) = layout_of P t"

definition sizeof :: "platform \<Rightarrow> c_type \<Rightarrow> nat" where
  "sizeof P t = fst (layout_of P t)"

definition alignof :: "platform \<Rightarrow> c_type \<Rightarrow> nat" where
  "alignof P t = snd (layout_of P t)"

definition offsetsof :: "platform \<Rightarrow> c_member list \<Rightarrow> nat list" where
  "offsetsof P ms = member_offsets 0 (map (member_layout P) ms)"

text \<open>
  The generator names a result type \<^verbatim>\<open>diplomat_result_<success>_<failure>\<close>. The two
  payload types are read back from the typedef's name: the last two components between
  underscores, \<^verbatim>\<open>void\<close> standing for no payload.
\<close>

fun split_on :: "char \<Rightarrow> string \<Rightarrow> string \<Rightarrow> string list" where
  "split_on sep acc [] = [rev acc]"
| "split_on sep acc (c # cs) =
     (if c = sep then rev acc # split_on sep [] cs else split_on sep (c # acc) cs)"

definition payload_of_name :: "string \<Rightarrow> c_type option option" where
  "payload_of_name n =
     (if n = ''void'' then Some None
      else if n = ''double'' then Some (Some CDouble)
      else if n = ''bool'' then Some (Some CBool)
      else None)"

definition result_payload_types :: "string \<Rightarrow> (c_type option \<times> c_type option) option" where
  "result_payload_types n =
     (case rev (split_on (CHR ''_'') [] n) of
        e # t # r # d # [] \<Rightarrow>
          (if d = ''diplomat'' \<and> r = ''result'' then
             (case (payload_of_name t, payload_of_name e) of
                (Some st, Some ft) \<Rightarrow> Some (st, ft)
              | _ \<Rightarrow> None)
           else None)
      | _ \<Rightarrow> None)"

fun payload_size :: "platform \<Rightarrow> c_type option \<Rightarrow> nat" where
  "payload_size P None = 0"
| "payload_size P (Some t) = sizeof P t"

text \<open>A common 64-bit platform: an 8-byte \<^verbatim>\<open>double\<close> aligned to 8, a 1-byte \<^verbatim>\<open>bool\<close>.\<close>

definition lp64 :: platform where
  "lp64 = \<lparr> sizeof_double = 8, alignof_double = 8, sizeof_bool = 1, alignof_bool = 1 \<rparr>"

section \<open>The tagged result record and its transfer\<close>

text \<open>
  The record both headers declare: the payload slot \<open>ok\<close>, a \<^verbatim>\<open>double\<close>, and the
  discriminant \<open>is_ok\<close>. A \<^verbatim>\<open>double\<close> is taken as its 64-bit pattern, so that equality
  of two payloads is equality bit for bit (it tells a negative zero from a positive one
  and one NaN from another); no floating-point operation is applied to it.
\<close>

type_synonym double = "64 word"

record diplomat_result_double_void =
  ok :: double
  is_ok :: bool

datatype outcome = Success double | Failure

text \<open>
  Modelled from the spec: the encoder of a fallible outcome into the record; the repository's
  sources at hand declare the record only, the native function that fills it is not among
  them. The first argument is the record's storage as the encoder finds it. A success sets
  \<open>is_ok\<close> and writes the value into the payload slot; a failure clears \<open>is_ok\<close> and
  leaves the payload slot as it was, whatever it held.
\<close>

fun Encode :: "diplomat_result_double_void \<Rightarrow> outcome \<Rightarrow> diplomat_result_double_void" where
  "Encode storage (Success v) = storage \<lparr> ok := v, is_ok := True \<rparr>"
| "Encode storage Failure = storage \<lparr> is_ok := False \<rparr>"

text \<open>
  Modelled from the spec: the decoder a host binding applies to the record, not among the
  sources at hand either. It reads the payload slot only when \<open>is_ok\<close> is set.
\<close>

definition Decode :: "diplomat_result_double_void \<Rightarrow> outcome" where
  "Decode r = (if is_ok r then Success (ok r) else Failure)"

section \<open>The native object behind \<open>Utf16Wrap\<close>\<close>

text \<open>
  The C\# file only declares the three entry points; the native library that implements
  them is not among the sources at hand. The definitions of this section are modelled from
  the specification's contract of the three operations.

  A handle (\<^verbatim>\<open>Utf16Wrap*\<close>) is an address. The native heap maps the handles of the
  objects that are alive to their 16-bit code units, and the identifiers of the owned
  buffers that are allocated to their contents.
\<close>

type_synonym handle = nat

type_synonym buffer_id = nat

record native_heap =
  objects :: "handle \<rightharpoonup> 16 word list"
  owned_buffers :: "buffer_id \<rightharpoonup> 16 word list"
  next_buffer :: buffer_id

datatype call_error = PreconditionViolation

text \<open>
  Modelled from the spec: a borrowed view is a reference into the storage of its source
  object, so its content is read through the heap and is there only while the source is.
\<close>

record borrowed_view =
  view_source :: handle
  view_length :: nat

definition view_content :: "native_heap \<Rightarrow> borrowed_view \<Rightarrow> 16 word list option" where
  "view_content H v =
     (case objects H (view_source v) of
        None \<Rightarrow> None
      | Some units \<Rightarrow> Some (take (view_length v) units))"

text \<open>
  Modelled from the spec: construction of a native object (not shown in the sources), which
  makes the handle alive.
\<close>

definition construct :: "native_heap \<Rightarrow> handle \<Rightarrow> 16 word list \<Rightarrow> native_heap" where
  "construct H self units = H \<lparr> objects := (objects H)(self \<mapsto> units) \<rparr>"

text \<open>
  Modelled from the spec: \<open>BorrowContiguous\<close>, the native function behind the entry point
  \<^verbatim>\<open>Utf16Wrap_borrow_cont\<close>. On a live handle it returns a view over all the units of
  the object and changes nothing; on any other handle the call is a precondition violation.
\<close>

definition Utf16Wrap_borrow_cont ::
    "native_heap \<Rightarrow> handle \<Rightarrow> call_error + borrowed_view \<times> native_heap" where
  "Utf16Wrap_borrow_cont H self =
     (case objects H self of
        None \<Rightarrow> Inl PreconditionViolation
      | Some units \<Rightarrow> Inr (\<lparr> view_source = self, view_length = length units \<rparr>, H))"

text \<open>
  Modelled from the spec: \<open>TakeOwned\<close>, the native function behind \<^verbatim>\<open>Utf16Wrap_owned\<close>.
  On a live handle it allocates a new buffer holding a copy of the units and hands it to
  the caller.
\<close>

definition Utf16Wrap_owned ::
    "native_heap \<Rightarrow> handle \<Rightarrow> call_error + buffer_id \<times> native_heap" where
  "Utf16Wrap_owned H self =
     (case objects H self of
        None \<Rightarrow> Inl PreconditionViolation
      | Some units \<Rightarrow>
          Inr (next_buffer H,
               H \<lparr> owned_buffers := (owned_buffers H)(next_buffer H \<mapsto> units),
                   next_buffer := Suc (next_buffer H) \<rparr>))"

text \<open>
  Modelled from the spec: \<open>Destroy\<close>, the native function behind \<^verbatim>\<open>Utf16Wrap_destroy\<close>.
  It releases the object of a live handle and nothing else.
\<close>

definition Utf16Wrap_destroy :: "native_heap \<Rightarrow> handle \<Rightarrow> call_error + native_heap" where
  "Utf16Wrap_destroy H self =
     (case objects H self of
        None \<Rightarrow> Inl PreconditionViolation
      | Some units \<Rightarrow> Inr (H \<lparr> objects := (objects H)(self := None) \<rparr>))"

text \<open>
  Modelled from the spec: the release of an owned sequence by its owner. Releasing a
  buffer that is not allocated (a second release) is a precondition violation.
\<close>

definition release_owned :: "native_heap \<Rightarrow> buffer_id \<Rightarrow> call_error + native_heap" where
  "release_owned H b =
     (case owned_buffers H b of
        None \<Rightarrow> Inl PreconditionViolation
      | Some units \<Rightarrow> Inr (H \<lparr> owned_buffers := (owned_buffers H)(b := None) \<rparr>))"

text \<open>
  Modelled from the spec: the two states of a handle, and a handle's state in a heap.
\<close>

datatype handle_state = Live | Destroyed

definition state_of :: "native_heap \<Rightarrow> handle \<Rightarrow> handle_state" where
  "state_of H self = (case objects H self of None \<Rightarrow> Destroyed | Some units \<Rightarrow> Live)"

text \<open>
  An operation invoked on a handle, its result dropped, and a sequence of operations on
  the same handle; the sequence stops at the first violation, after which nothing is defined.
\<close>

fun invoke :: "operation \<Rightarrow> native_heap \<Rightarrow> handle \<Rightarrow> call_error + native_heap" where
  "invoke BorrowContiguous H self =
     (case Utf16Wrap_borrow_cont H self of Inl e \<Rightarrow> Inl e | Inr (v, H') \<Rightarrow> Inr H')"
| "invoke TakeOwned H self =
     (case Utf16Wrap_owned H self of Inl e \<Rightarrow> Inl e | Inr (b, H') \<Rightarrow> Inr H')"
| "invoke Destroy H self = Utf16Wrap_destroy H self"

fun run :: "operation list \<Rightarrow> native_heap \<Rightarrow> handle \<Rightarrow> call_error + native_heap" where
  "run [] H self = Inr H"
| "run (op # ops) H self =
     (case invoke op H self of Inl e \<Rightarrow> Inl e | Inr H' \<Rightarrow> run ops H' self)"

text \<open>Two calls of \<open>BorrowContiguous\<close> in succession, the second on the heap the first leaves.\<close>

definition borrow_twice ::
    "native_heap \<Rightarrow> handle \<Rightarrow> call_error + borrowed_view \<times> borrowed_view \<times> native_heap" where
  "borrow_twice H self =
     (case Utf16Wrap_borrow_cont H self of
        Inl e \<Rightarrow> Inl e
      | Inr (v1, H1) \<Rightarrow>
          (case Utf16Wrap_borrow_cont H1 self of
             Inl e \<Rightarrow> Inl e
           | Inr (v2, H2) \<Rightarrow> Inr (v1, v2, H2)))"

text \<open>
  A heap for examples: the object at handle 1 holds the code units of "hi".
\<close>

definition hi_heap :: native_heap where
  "hi_heap = construct \<lparr> objects = Map.empty, owned_buffers = Map.empty, next_buffer = 0 \<rparr>
               1 [0x68, 0x69]"

text \<open>The heap of the example after handle 1 was destroyed with one owned buffer taken before.\<close>

definition hi_heap_destroyed :: native_heap where
  "hi_heap_destroyed =
     \<lparr> objects = Map.empty, owned_buffers = [0 \<mapsto> [0x68, 0x69]], next_buffer = 1 \<rparr>"

text \<open>
  A heap with two objects, "hi" at handle 1 and "yo" at handle 2; the heaps after
  \<open>TakeOwned\<close> on handle 1, after \<open>TakeOwned\<close> on handle 2 then, after \<open>Destroy\<close> of
  handle 1 then, and after the release of the owned buffer 0 then.
\<close>

definition two_heap :: native_heap where
  "two_heap = construct hi_heap 2 [0x79, 0x6F]"

definition two_heap_taken_first :: native_heap where
  "two_heap_taken_first =
     \<lparr> objects = [1 \<mapsto> [0x68, 0x69], 2 \<mapsto> [0x79, 0x6F]],
       owned_buffers = [0 \<mapsto> [0x68, 0x69]], next_buffer = 1 \<rparr>"

definition two_heap_taken :: native_heap where
  "two_heap_taken =
     \<lparr> objects = [1 \<mapsto> [0x68, 0x69], 2 \<mapsto> [0x79, 0x6F]],
       owned_buffers = [0 \<mapsto> [0x68, 0x69], 1 \<mapsto> [0x79, 0x6F]], next_buffer = 2 \<rparr>"

definition two_heap_destroyed :: native_heap where
  "two_heap_destroyed =
     \<lparr> objects = [2 \<mapsto> [0x79, 0x6F]],
       owned_buffers = [0 \<mapsto> [0x68, 0x69], 1 \<mapsto> [0x79, 0x6F]], next_buffer = 2 \<rparr>"

definition two_heap_released :: native_heap where
  "two_heap_released =
     \<lparr> objects = [2 \<mapsto> [0x79, 0x6F]],
       owned_buffers = [1 \<mapsto> [0x79, 0x6F]], next_buffer = 2 \<rparr>"

section \<open>Properties of the declarations\<close>

lemma snake_case_BorrowCont: "snake_case ''BorrowCont'' = ''borrow_cont''"
  by code_simp

lemma snake_case_Owned: "snake_case ''Owned'' = ''owned''"
  by code_simp

lemma snake_case_Destroy: "snake_case ''Destroy'' = ''destroy''"
  by code_simp

lemma payload_types_double_void:
  "result_payload_types ''diplomat_result_double_void'' = Some (Some CDouble, None)"
  by code_simp

lemma round_up_multiple: "0 < a \<Longrightarrow> n mod a = 0 \<Longrightarrow> round_up n a = n"
proof -
  assume a: "0 < a" and m: "n mod a = 0"
  from m have "a dvd n" by (simp add: mod_eq_0_iff_dvd)
  then obtain j where "n = a * j" by (rule dvdE)
  then have k: "n = j * a" by (simp add: mult.commute)
  from a obtain b where b: "a = Suc b" by (cases a) auto
  have d1: "(b + j * Suc b) div Suc b = j + b div Suc b" by (rule div_mult_self1) simp
  have d2: "b div Suc b = 0" by simp
  have d3: "(b + j * Suc b) div Suc b = j" unfolding d1 d2 by simp
  have d4: "n + Suc b - 1 = b + j * Suc b" by (simp add: k b)
  have "round_up n a = ((n + Suc b - 1) div Suc b) * Suc b" by (simp only: round_up_def b)
  also have "\<dots> = j * Suc b" by (simp only: d4 d3)
  also have "\<dots> = n" by (simp only: k b)
  finally show ?thesis .
qed

lemma round_up_ge: "0 < a \<Longrightarrow> n \<le> round_up n a"
proof -
  assume a: "0 < a"
  have "n + a - 1 < ((n + a - 1) div a) * a + a"
    using a by (metis div_mult_mod_eq mod_less_divisor nat_add_left_cancel_less)
  then show ?thesis using a by (simp add: round_up_def)
qed

text \<open>
  C9. The declaration of \<open>diplomat_result_double_void\<close> in the named header and the one in
  the second header are the same type: the same tag and typedef name, an anonymous union
  with the single member \<open>double ok\<close>, then \<open>bool is_ok\<close>, in this order. The two headers
  themselves differ (in their include guards), the type they declare does not.
\<close>

theorem headers_declare_same_struct:
  "diplomat_result_double_void_h_struct = diplomat_result_double_void_d_h_struct
   \<and> declared_type diplomat_result_double_void_h ''diplomat_result_double_void''
       = declared_type diplomat_result_double_void_d_h ''diplomat_result_double_void''
   \<and> declared_type diplomat_result_double_void_h ''diplomat_result_double_void''
       = Some (CStruct [Member None (CUnion [Member (Some ''ok'') CDouble]),
                        Member (Some ''is_ok'') CBool])
   \<and> include_guard diplomat_result_double_void_h \<noteq> include_guard diplomat_result_double_void_d_h"
  by (simp add: diplomat_result_double_void_h_struct_def diplomat_result_double_void_d_h_struct_def
        diplomat_result_double_void_h_def diplomat_result_double_void_d_h_def declared_type_def)

text \<open>
  C8. The destruction operation of \<open>Utf16Wrap\<close>, bound to \<open>Utf16Wrap_destroy\<close>, takes exactly
  one argument, the handle (a pointer to \<open>Utf16Wrap\<close>), and returns nothing (\<open>void\<close>).
\<close>

theorem Destroy_takes_handle_returns_nothing:
  "parameters (binding Destroy)
     = [\<lparr> parameter_type = CsPointer (CsNamed (cs_struct_name Raw_Utf16Wrap)),
          parameter_name = ''self'' \<rparr>]
   \<and> length (parameters (binding Destroy)) = 1
   \<and> return_type (binding Destroy) = CsVoid
   \<and> EntryPoint (binding Destroy) = ''Utf16Wrap_destroy''"
  by (simp add: Raw_Destroy_def Raw_Utf16Wrap_def)

text \<open>
  C10. \<open>BorrowCont\<close> and \<open>Owned\<close> have the same signature: each takes one \<open>Utf16Wrap*\<close> and
  returns \<open>ushort[]\<close>. The two declarations differ in nothing but the method's name and
  the entry point, so the ownership mode of the result does not show in any type.
\<close>

theorem BorrowCont_Owned_same_signature:
  "signature Raw_BorrowCont = signature Raw_Owned
   \<and> signature Raw_BorrowCont = ([CsPointer (CsNamed ''Utf16Wrap'')], CsArray CsUShort)
   \<and> Raw_Owned = Raw_BorrowCont \<lparr> EntryPoint := ''Utf16Wrap_owned'', method_name := ''Owned'' \<rparr>
   \<and> method_name Raw_BorrowCont \<noteq> method_name Raw_Owned
   \<and> EntryPoint Raw_BorrowCont \<noteq> EntryPoint Raw_Owned"
  by (simp add: signature_def Raw_BorrowCont_def Raw_Owned_def)

text \<open>
  C4. Every exported operation of \<open>Utf16Wrap\<close> is bound to the native symbol
  \<open><TypeName>_<operationName>\<close>: \<open>BorrowContiguous\<close> to \<open>Utf16Wrap_borrow_cont\<close>, \<open>TakeOwned\<close>
  to \<open>Utf16Wrap_owned\<close>, \<open>Destroy\<close> to \<open>Utf16Wrap_destroy\<close>; the three bindings are all the
  extern methods of the struct, and each uses the \<open>Cdecl\<close> calling convention.
\<close>

theorem entry_points_follow_naming_pattern:
  "EntryPoint (binding op) = expected_entry_point Raw_Utf16Wrap (binding op)
   \<and> CallingConvention (binding op) = Cdecl
   \<and> map binding [BorrowContiguous, TakeOwned, Destroy] = extern_methods Raw_Utf16Wrap
   \<and> map EntryPoint (extern_methods Raw_Utf16Wrap)
       = [''Utf16Wrap_borrow_cont'', ''Utf16Wrap_owned'', ''Utf16Wrap_destroy'']
   \<and> map CallingConvention (extern_methods Raw_Utf16Wrap) = [Cdecl, Cdecl, Cdecl]"
  by (cases op)
     (simp_all add: expected_entry_point_def native_symbol_def Raw_Utf16Wrap_def
        Raw_BorrowCont_def Raw_Owned_def Raw_Destroy_def
        snake_case_BorrowCont snake_case_Owned snake_case_Destroy)

text \<open>
  C3. On every platform whose \<open>double\<close> and \<open>bool\<close> have a positive size that is a multiple
  of a positive alignment, \<open>diplomat_result_double_void\<close> (in either header) is laid out as
  two members in this order: first the payload slot, an anonymous union of the single member
  \<open>double ok\<close> at offset 0, whose size is the maximum of the size of the success payload
  (\<open>double\<close>) and of the failure payload (\<open>void\<close>, no storage); then the discriminant
  \<open>bool is_ok\<close>, at an offset past the payload slot, of at least one byte.
\<close>

theorem result_record_layout:
  assumes "platform_ok P"
  shows "map member_name (struct_members diplomat_result_double_void_h_struct) = [None, Some ''is_ok'']
   \<and> map member_type (struct_members diplomat_result_double_void_h_struct)
       = [CUnion [Member (Some ''ok'') CDouble], CBool]
   \<and> struct_members diplomat_result_double_void_d_h_struct
       = struct_members diplomat_result_double_void_h_struct
   \<and> result_payload_types (typedef_name diplomat_result_double_void_h_struct)
       = Some (Some CDouble, None)
   \<and> sizeof P (CUnion [Member (Some ''ok'') CDouble])
       = max (payload_size P (Some CDouble)) (payload_size P None)
   \<and> offsetsof P (struct_members diplomat_result_double_void_h_struct)
       = [0, round_up (sizeof P (CUnion [Member (Some ''ok'') CDouble])) (alignof P CBool)]
   \<and> sizeof P (CUnion [Member (Some ''ok'') CDouble])
       \<le> round_up (sizeof P (CUnion [Member (Some ''ok'') CDouble])) (alignof P CBool)
   \<and> 1 \<le> sizeof P CBool"
proof -
  from assms have ad: "0 < alignof_double P" and sd: "sizeof_double P mod alignof_double P = 0"
    and ab: "0 < alignof_bool P" and sb: "0 < sizeof_bool P"
    by (simp_all add: platform_ok_def)
  have al: "max (alignof_double P) (Suc 0) = alignof_double P" using ad by simp
  have u: "sizeof P (CUnion [Member (Some ''ok'') CDouble]) = sizeof_double P"
    by (simp add: sizeof_def union_layout_def max_list_def Let_def al round_up_multiple [OF ad sd])
  have names: "map member_name (struct_members diplomat_result_double_void_h_struct)
      = [None, Some ''is_ok'']"
    by (simp add: diplomat_result_double_void_h_struct_def)
  have types: "map member_type (struct_members diplomat_result_double_void_h_struct)
      = [CUnion [Member (Some ''ok'') CDouble], CBool]"
    by (simp add: diplomat_result_double_void_h_struct_def)
  have same: "struct_members diplomat_result_double_void_d_h_struct
      = struct_members diplomat_result_double_void_h_struct"
    by (simp add: diplomat_result_double_void_h_struct_def diplomat_result_double_void_d_h_struct_def)
  have pt: "result_payload_types (typedef_name diplomat_result_double_void_h_struct)
      = Some (Some CDouble, None)"
    by (simp add: diplomat_result_double_void_h_struct_def payload_types_double_void)
  have mx: "sizeof P (CUnion [Member (Some ''ok'') CDouble])
      = max (payload_size P (Some CDouble)) (payload_size P None)"
    by (simp add: u) (simp add: sizeof_def)
  have r0: "round_up 0 (alignof_double P) = 0"
    using ad by (simp add: round_up_multiple)
  have off: "offsetsof P (struct_members diplomat_result_double_void_h_struct)
      = [0, round_up (sizeof P (CUnion [Member (Some ''ok'') CDouble])) (alignof P CBool)]"
    by (simp add: u) 
       (simp add: offsetsof_def diplomat_result_double_void_h_struct_def union_layout_def
          max_list_def Let_def al r0 round_up_multiple [OF ad sd] alignof_def)
  have past: "sizeof P (CUnion [Member (Some ''ok'') CDouble])
      \<le> round_up (sizeof P (CUnion [Member (Some ''ok'') CDouble])) (alignof P CBool)"
    using ab by (simp add: round_up_ge alignof_def)
  have byte: "1 \<le> sizeof P CBool" using sb by (simp add: sizeof_def)
  from names types same pt mx off past byte show ?thesis by (simp only: simp_thms)
qed

theorem result_record_layout_witness:
  "platform_ok lp64
   \<and> offsetsof lp64 (struct_members diplomat_result_double_void_h_struct) = [0, 8]
   \<and> sizeof lp64 (CUnion [Member (Some ''ok'') CDouble]) = 8
   \<and> sizeof lp64 CBool = 1
   \<and> sizeof lp64 (CStruct (struct_members diplomat_result_double_void_h_struct)) = 16"
proof -
  have ok: "platform_ok lp64" by (simp add: platform_ok_def lp64_def)
  have r: "round_up 8 1 = 8" by (simp add: round_up_def)
  have s: "sizeof lp64 (CStruct (struct_members diplomat_result_double_void_h_struct)) = 16"
    by (simp add: sizeof_def diplomat_result_double_void_h_struct_def struct_layout_def
          union_layout_def max_list_def Let_def lp64_def round_up_def)
  from result_record_layout [OF ok] ok r s show ?thesis
    by (simp add: payload_size.simps sizeof_def alignof_def lp64_def)
qed

section \<open>Properties of the tagged result transfer\<close>

text \<open>
  C1. For every double \<open>v\<close> and whatever the record's storage held before, the encoding of
  \<open>Success v\<close> has \<open>is_ok\<close> set and the payload slot equal to \<open>v\<close> bit for bit, and decoding
  it gives \<open>Success v\<close> back.
\<close>

theorem Decode_Encode_Success:
  "Decode (Encode storage (Success v)) = Success v
   \<and> is_ok (Encode storage (Success v)) = True
   \<and> ok (Encode storage (Success v)) = v"
  by (simp add: Decode_def)

text \<open>
  C2. Whatever the record's storage held before, the encoding of \<open>Failure\<close> has \<open>is_ok\<close>
  cleared and decodes to \<open>Failure\<close>. Its payload slot holds what the storage held, so every
  bit pattern \<open>p\<close> can be found there and none is guaranteed; the decoder gives \<open>Failure\<close>
  for a record with \<open>is_ok\<close> cleared whatever the payload slot holds.
\<close>

theorem Decode_Encode_Failure:
  "Decode (Encode storage Failure) = Failure
   \<and> is_ok (Encode storage Failure) = False
   \<and> ok (Encode \<lparr> ok = p, is_ok = b \<rparr> Failure) = p
   \<and> Decode \<lparr> ok = p, is_ok = False \<rparr> = Failure"
  by (simp add: Decode_def)

section \<open>Properties of the native object\<close>

lemma invoke_dead: "objects H self = None \<Longrightarrow> invoke op H self = Inl PreconditionViolation"
  by (cases op) (simp_all add: Utf16Wrap_borrow_cont_def Utf16Wrap_owned_def Utf16Wrap_destroy_def)

lemma invoke_live:
  "objects H self = Some units \<Longrightarrow>
   \<exists>H'. invoke op H self = Inr H' \<and> objects H' self = (if op = Destroy then None else Some units)"
  by (cases op) (simp_all add: Utf16Wrap_borrow_cont_def Utf16Wrap_owned_def Utf16Wrap_destroy_def)

lemma run_dead: "objects H self = None \<Longrightarrow> run ops H self = Inr H' \<Longrightarrow> ops = []"
  by (cases ops) (simp_all add: invoke_dead)

lemma run_live:
  "objects H self = Some units \<Longrightarrow> run ops H self = Inr H' \<Longrightarrow>
     count_list ops Destroy \<le> 1
     \<and> (state_of H' self = Destroyed \<longleftrightarrow> Destroy \<in> set ops)
     \<and> (Destroy \<in> set ops \<longrightarrow> last ops = Destroy)"
proof (induction ops arbitrary: H)
  case Nil
  then show ?case by (simp add: state_of_def)
next
  case (Cons op ops)
  from invoke_live [OF Cons.prems(1), of op] obtain H1 where
    i: "invoke op H self = Inr H1" and
    o: "objects H1 self = (if op = Destroy then None else Some units)" by blast
  from Cons.prems(2) i have r: "run ops H1 self = Inr H'" by simp
  show ?case
  proof (cases "op = Destroy")
    case True
    with o have "objects H1 self = None" by simp
    from run_dead [OF this r] have e: "ops = []" .
    with r have "H' = H1" by simp
    with True e o show ?thesis by (simp add: state_of_def)
  next
    case False
    with o have "objects H1 self = Some units" by simp
    from Cons.IH [OF this r] False show ?thesis by auto
  qed
qed

lemma invoke_state:
  "(case invoke op H self of
      Inl e \<Rightarrow> e = PreconditionViolation \<and> state_of H self = Destroyed
    | Inr K \<Rightarrow> state_of H self = Live
               \<and> state_of K self = (if op = Destroy then Destroyed else Live))"
proof (cases "objects H self")
  case None
  then show ?thesis by (simp add: invoke_dead state_of_def)
next
  case (Some us)
  from invoke_live [OF this, where op = op] Some show ?thesis by (auto simp: state_of_def)
qed

text \<open>
  C5. On a live handle whose object holds \<open>units\<close>, two calls of \<open>BorrowContiguous\<close> in
  succession both return, with the same view: the same length, the length of \<open>units\<close>, and
  the same content, \<open>units\<close>; the heap is left as it was.
\<close>

theorem BorrowContiguous_twice_same_view:
  assumes "objects H self = Some units"
  shows "borrow_twice H self
           = Inr (\<lparr> view_source = self, view_length = length units \<rparr>,
                  \<lparr> view_source = self, view_length = length units \<rparr>, H)
    \<and> view_content H \<lparr> view_source = self, view_length = length units \<rparr> = Some units"
  using assms by (simp add: borrow_twice_def Utf16Wrap_borrow_cont_def view_content_def)

theorem BorrowContiguous_twice_same_view_witness:
  "objects hi_heap 1 = Some [0x68, 0x69]
   \<and> borrow_twice hi_heap 1
       = Inr (\<lparr> view_source = 1, view_length = 2 \<rparr>, \<lparr> view_source = 1, view_length = 2 \<rparr>, hi_heap)
   \<and> view_content hi_heap \<lparr> view_source = 1, view_length = 2 \<rparr> = Some [0x68, 0x69]"
proof -
  have l: "objects hi_heap 1 = Some [0x68, 0x69]" by (simp add: hi_heap_def construct_def)
  from BorrowContiguous_twice_same_view [OF l] l show ?thesis by (simp add: numeral_2_eq_2)
qed

text \<open>
  C6. A handle is \<open>Live\<close> on construction. An operation on a handle either is a precondition
  violation, and then the handle was \<open>Destroyed\<close>, or returns, and then the handle was \<open>Live\<close>
  and is \<open>Destroyed\<close> afterwards exactly when the operation was \<open>Destroy\<close>. In every sequence
  of operations on a constructed handle that runs without a violation, \<open>Destroy\<close> occurs at
  most once; the handle ends \<open>Destroyed\<close> exactly when \<open>Destroy\<close> occurred once, and then as
  the last operation; and any further operation is a precondition violation, which returns
  no heap to go on with, exactly when the handle ended \<open>Destroyed\<close>.
\<close>

theorem handle_state_machine:
  assumes "run ops (construct H0 self units) self = Inr H'"
  shows "state_of (construct H0 self units) self = Live
    \<and> (case invoke op H self of
          Inl e \<Rightarrow> e = PreconditionViolation \<and> state_of H self = Destroyed
        | Inr K \<Rightarrow> state_of H self = Live
                   \<and> state_of K self = (if op = Destroy then Destroyed else Live))
    \<and> count_list ops Destroy \<le> 1
    \<and> (state_of H' self = Destroyed \<longleftrightarrow> count_list ops Destroy = 1)
    \<and> (state_of H' self = Destroyed \<longleftrightarrow> ops \<noteq> [] \<and> last ops = Destroy)
    \<and> (invoke op H' self = Inl PreconditionViolation \<longleftrightarrow> state_of H' self = Destroyed)"
proof -
  have c: "objects (construct H0 self units) self = Some units" by (simp add: construct_def)
  note rl = run_live [OF c assms]
  have s: "state_of (construct H0 self units) self = Live" by (simp add: state_of_def c)
  have g2: "invoke op H' self = Inl PreconditionViolation \<longleftrightarrow> state_of H' self = Destroyed"
    using invoke_state [where op = op and H = H' and self = self]
    by (cases "invoke op H' self") (auto split: if_splits)
  have l: "state_of H' self = Destroyed \<longleftrightarrow> ops \<noteq> [] \<and> last ops = Destroy"
    using rl by (cases ops rule: rev_cases) auto
  have n: "state_of H' self = Destroyed \<longleftrightarrow> count_list ops Destroy = 1"
  proof
    assume "state_of H' self = Destroyed"
    with rl have "Destroy \<in> set ops" by simp
    then have "count_list ops Destroy \<noteq> 0" by (simp add: count_list_0_iff)
    with rl show "count_list ops Destroy = 1" by simp
  next
    assume "count_list ops Destroy = 1"
    then have "count_list ops Destroy \<noteq> 0" by simp
    then have "Destroy \<in> set ops" by (simp add: count_list_0_iff)
    with rl show "state_of H' self = Destroyed" by simp
  qed
  from s rl invoke_state [where op = op and H = H and self = self] g2 l n show ?thesis by blast
qed

theorem handle_state_machine_witness:
  "run [BorrowContiguous, TakeOwned, Destroy] hi_heap 1 = Inr hi_heap_destroyed
   \<and> state_of hi_heap 1 = Live
   \<and> state_of hi_heap_destroyed 1 = Destroyed
   \<and> count_list [BorrowContiguous, TakeOwned, Destroy] Destroy = 1
   \<and> invoke BorrowContiguous hi_heap_destroyed 1 = Inl PreconditionViolation
   \<and> invoke TakeOwned hi_heap_destroyed 1 = Inl PreconditionViolation
   \<and> invoke Destroy hi_heap_destroyed 1 = Inl PreconditionViolation"
proof -
  have r: "run [BorrowContiguous, TakeOwned, Destroy]
             (construct \<lparr> objects = Map.empty, owned_buffers = Map.empty, next_buffer = 0 \<rparr>
                1 [0x68, 0x69]) 1 = Inr hi_heap_destroyed"
    by (simp add: construct_def hi_heap_destroyed_def Utf16Wrap_borrow_cont_def
          Utf16Wrap_owned_def Utf16Wrap_destroy_def)
  from handle_state_machine [OF r, where op = BorrowContiguous and H = hi_heap]
       handle_state_machine [OF r, where op = TakeOwned and H = hi_heap]
       handle_state_machine [OF r, where op = Destroy and H = hi_heap] r
  show ?thesis by (simp add: hi_heap_def)
qed

text \<open>
  C7. Let \<open>Destroy\<close> of a handle return. It removes the handle's object and changes nothing
  else in the heap. Afterwards every view whose source is the handle has no content, and so
  has every view that \<open>BorrowContiguous\<close> returned for the handle in whatever heap. A
  sequence that \<open>TakeOwned\<close> returns is an owned buffer holding the object's units; the
  destruction leaves every owned buffer as it was, so every buffer allocated before it is
  still allocated after it with the same content, its release succeeds once, and a second
  release is a precondition violation.
\<close>

theorem Destroy_invalidates_views_keeps_owned:
  assumes destroy: "Utf16Wrap_destroy H self = Inr H'"
  shows "objects H' = (objects H)(self := None)
    \<and> owned_buffers H' = owned_buffers H
    \<and> next_buffer H' = next_buffer H
    \<and> (view_source v = self \<longrightarrow> view_content H' v = None)
    \<and> (Utf16Wrap_borrow_cont Hv self = Inr (w, Kv) \<longrightarrow> view_content H' w = None)
    \<and> (Utf16Wrap_owned Ht self = Inr (b, Kt) \<longrightarrow>
          owned_buffers Kt b = objects Ht self \<and> owned_buffers Kt b \<noteq> None)
    \<and> (owned_buffers H c = Some units \<longrightarrow>
          owned_buffers H' c = Some units
          \<and> release_owned H' c = Inr (H' \<lparr> owned_buffers := (owned_buffers H')(c := None) \<rparr>)
          \<and> release_owned (H' \<lparr> owned_buffers := (owned_buffers H')(c := None) \<rparr>) c
               = Inl PreconditionViolation)"
proof -
  from destroy have H': "H' = H \<lparr> objects := (objects H)(self := None) \<rparr>"
    by (simp add: Utf16Wrap_destroy_def split: option.splits)
  have obj: "objects H' = (objects H)(self := None)" by (simp add: H')
  have own: "owned_buffers H' = owned_buffers H" by (simp add: H')
  have nxt: "next_buffer H' = next_buffer H" by (simp add: H')
  have gone: "view_content H' u = None" if "view_source u = self" for u
    using that by (simp add: view_content_def obj)
  have src: "view_source w = self" if "Utf16Wrap_borrow_cont Hv self = Inr (w, Kv)"
    using that by (auto simp: Utf16Wrap_borrow_cont_def split: option.splits)
  have tk: "owned_buffers Kt b = objects Ht self \<and> owned_buffers Kt b \<noteq> None"
    if "Utf16Wrap_owned Ht self = Inr (b, Kt)"
    using that by (auto simp: Utf16Wrap_owned_def split: option.splits)
  have rel: "owned_buffers H' c = Some units
      \<and> release_owned H' c = Inr (H' \<lparr> owned_buffers := (owned_buffers H')(c := None) \<rparr>)
      \<and> release_owned (H' \<lparr> owned_buffers := (owned_buffers H')(c := None) \<rparr>) c
           = Inl PreconditionViolation"
    if "owned_buffers H c = Some units"
    using that by (simp add: release_owned_def own)
  from obj own nxt gone src tk rel show ?thesis by blast
qed

theorem Destroy_invalidates_views_keeps_owned_witness:
  "Utf16Wrap_owned two_heap 1 = Inr (0, two_heap_taken_first)
   \<and> Utf16Wrap_owned two_heap_taken_first 2 = Inr (1, two_heap_taken)
   \<and> Utf16Wrap_borrow_cont two_heap_taken 1
        = Inr (\<lparr> view_source = 1, view_length = 2 \<rparr>, two_heap_taken)
   \<and> view_content two_heap_taken \<lparr> view_source = 1, view_length = 2 \<rparr> = Some [0x68, 0x69]
   \<and> Utf16Wrap_destroy two_heap_taken 1 = Inr two_heap_destroyed
   \<and> view_content two_heap_destroyed \<lparr> view_source = 1, view_length = 2 \<rparr> = None
   \<and> owned_buffers two_heap_destroyed 0 = Some [0x68, 0x69]
   \<and> owned_buffers two_heap_destroyed 1 = Some [0x79, 0x6F]
   \<and> release_owned two_heap_destroyed 0 = Inr two_heap_released
   \<and> release_owned two_heap_released 0 = Inl PreconditionViolation"
proof -
  have t1: "Utf16Wrap_owned two_heap 1 = Inr (0, two_heap_taken_first)"
    by (simp add: Utf16Wrap_owned_def two_heap_def hi_heap_def construct_def
          two_heap_taken_first_def)
  have t2: "Utf16Wrap_owned two_heap_taken_first 2 = Inr (1, two_heap_taken)"
    by (simp add: Utf16Wrap_owned_def two_heap_taken_first_def two_heap_taken_def)
  have b: "Utf16Wrap_borrow_cont two_heap_taken 1
             = Inr (\<lparr> view_source = 1, view_length = 2 \<rparr>, two_heap_taken)"
    by (simp add: Utf16Wrap_borrow_cont_def two_heap_taken_def numeral_2_eq_2)
  have vc: "view_content two_heap_taken \<lparr> view_source = 1, view_length = 2 \<rparr> = Some [0x68, 0x69]"
    by (simp add: view_content_def two_heap_taken_def)
  have m: "[(1::nat) \<mapsto> [0x68, 0x69 :: 16 word], 2 \<mapsto> [0x79, 0x6F]](1 := None)
             = [2 \<mapsto> [0x79, 0x6F]]"
    by (simp add: fun_eq_iff)
  have d: "Utf16Wrap_destroy two_heap_taken 1 = Inr two_heap_destroyed"
    by (simp add: Utf16Wrap_destroy_def two_heap_taken_def two_heap_destroyed_def m)
  have o: "owned_buffers two_heap_taken 0 = Some [0x68, 0x69]"
    by (simp add: two_heap_taken_def)
  have o1: "owned_buffers two_heap_destroyed 1 = Some [0x79, 0x6F]"
    by (simp add: two_heap_destroyed_def)
  have r: "two_heap_destroyed \<lparr> owned_buffers := (owned_buffers two_heap_destroyed)(0 := None) \<rparr>
             = two_heap_released"
    by (simp add: two_heap_destroyed_def two_heap_released_def fun_eq_iff)
  from Destroy_invalidates_views_keeps_owned
         [OF d, where v = "\<lparr> view_source = 1, view_length = 2 \<rparr>"
            and Hv = two_heap_taken and w = "\<lparr> view_source = 1, view_length = 2 \<rparr>"
            and Kv = two_heap_taken
            and Ht = two_heap and b = 0 and Kt = two_heap_taken_first
            and c = 0 and units = "[0x68, 0x69]"]
       t1 t2 b vc d o o1 r
  show ?thesis by simp
qed

end
